theory Spec2Isabelle
  imports Complex_Main "HOL-Library.Word"
begin

section \<open>The dummy recovery and its test fixture (test\_recoveries.cpp)\<close>

text \<open>
  The status enumeration of the recovery framework, the result code of an action result and
  the return code of \<open>spin_until_future_complete\<close>. The three enumerations come from
  headers outside this repository's sources; only their constructors are used.
\<close>

datatype Status = SUCCEEDED | FAILED | RUNNING

datatype ResultCode = ResultUNKNOWN | ResultSUCCEEDED | ResultCANCELED | ResultABORTED

datatype FutureReturnCode = SUCCESS | INTERRUPTED | TIMEOUT

datatype error = NullGoalHandle | OutOfBounds | DivisionByZero | PlannerNotRunning

text \<open>
  The private members of \<open>DummyRecovery\<close>: \<open>initialized_\<close>, \<open>command_\<close> and
  \<open>start_time_\<close> (the trailing underscore is dropped, a field name cannot end with one).
  A time point of \<open>system_clock\<close> is a signed 64-bit count of nanoseconds; the clock is
  read by the environment and handed to the model as an argument.
\<close>

record DummyRecovery =
  initialized :: bool
  command :: string
  start_time :: "64 word"

text \<open>The constructor initialises \<open>initialized_\<close> only; the other members are default-constructed.\<close>

definition fresh_recovery :: DummyRecovery where
  "fresh_recovery = \<lparr>initialized = False, command = [], start_time = 0\<rparr>"

text \<open>\<open>DummyRecovery::onRun\<close>; \<open>now\<close> is the reading of the clock at line 51.\<close>

definition onRun :: "DummyRecovery \<Rightarrow> string \<Rightarrow> 64 word \<Rightarrow> Status \<times> DummyRecovery" where
  "onRun s goal_command now =
     (let s1 = s\<lparr>initialized := False\<rparr>;
          s2 = s1\<lparr>command := goal_command\<rparr>;
          s3 = s2\<lparr>start_time := now\<rparr>
      in if command s3 = ''Testing success'' \<or> command s3 = ''Testing failure on run''
         then (SUCCEEDED, s3\<lparr>initialized := True\<rparr>)
         else (FAILED, s3))"

text \<open>The literal \<open>5s\<close>, in the nanoseconds of the clock.\<close>

definition motion_duration :: int where
  "motion_duration = 5 * 1000000000"

text \<open>
  \<open>DummyRecovery::onCycleUpdate\<close>; \<open>current_time\<close> is the reading of the clock at
  line 78, after the sleep of two milliseconds. The function changes no member. The
  difference at line 81 is a subtraction of two signed 64-bit counts, compared as a signed
  value with the duration. Where the difference of the two counts is not a 64-bit value the
  language leaves the result undefined; the model takes the two's complement result of the
  compiled code, which wraps around.
\<close>

definition onCycleUpdate :: "DummyRecovery \<Rightarrow> 64 word \<Rightarrow> Status" where
  "onCycleUpdate s current_time =
     (if command s \<noteq> ''Testing success'' \<or> \<not> initialized s then FAILED
      else if sint (current_time - start_time s) \<ge> motion_duration then SUCCEEDED
      else RUNNING)"

subsection \<open>The client side: \<open>RecoveryTest\<close>\<close>

text \<open>
  What the action transport answers to one \<open>sendCommand\<close>: whether
  \<open>wait_for_action_server(4s)\<close> found the server, the return code of spinning on the goal
  future, and the goal handle the future holds (\<open>None\<close> is the null pointer of a rejected
  goal). A goal handle is identified by a number.
\<close>

record transport =
  server_ready :: bool
  send_frc :: FutureReturnCode
  sent_handle :: "nat option"

text \<open>
  \<open>RecoveryTest::sendCommand\<close>. The member \<open>goal_handle_\<close> is passed in and returned;
  it is assigned at line 134 only.
\<close>

definition sendCommand :: "transport \<Rightarrow> nat option \<Rightarrow> bool \<times> nat option" where
  "sendCommand tr goal_handle =
     (if \<not> server_ready tr then (False, goal_handle)
      else if send_frc tr \<noteq> SUCCESS then (False, goal_handle)
      else let goal_handle' = sent_handle tr
           in if goal_handle' = None then (False, goal_handle') else (True, goal_handle'))"

text \<open>
  The \<open>do ... while\<close> loop of \<open>RecoveryTest::getResult\<close>. \<open>spin k\<close> is the return code
  of the \<open>k\<close>-th call of \<open>spin_until_future_complete\<close>, which is called without a timeout.
  The loop returns the number of the call that ended it, and it has no other exit.
\<close>

partial_function (option) spin_loop :: "(nat \<Rightarrow> FutureReturnCode) \<Rightarrow> nat \<Rightarrow> nat option" where
  "spin_loop spin k = (if spin k \<noteq> SUCCESS then spin_loop spin (Suc k) else Some k)"

record WrappedResult =
  code :: ResultCode

text \<open>
  \<open>RecoveryTest::getResult\<close>: \<open>future_value\<close> is what the result future holds once it
  is complete. \<open>None\<close> says that the call does not return; dereferencing a null
  \<open>goal_handle_\<close> is the error \<open>NullGoalHandle\<close>.
\<close>

definition getResult ::
  "nat option \<Rightarrow> (nat \<Rightarrow> FutureReturnCode) \<Rightarrow> WrappedResult \<Rightarrow> (error + WrappedResult) option" where
  "getResult goal_handle spin future_value =
     (case goal_handle of
        None \<Rightarrow> Some (Inl NullGoalHandle)
      | Some h \<Rightarrow> (case spin_loop spin 0 of None \<Rightarrow> None | Some k \<Rightarrow> Some (Inr future_value)))"

text \<open>\<open>RecoveryTest::getOutcome\<close>.\<close>

definition getOutcome ::
  "nat option \<Rightarrow> (nat \<Rightarrow> FutureReturnCode) \<Rightarrow> WrappedResult \<Rightarrow> (error + Status) option" where
  "getOutcome goal_handle spin future_value =
     (case getResult goal_handle spin future_value of
        None \<Rightarrow> None
      | Some (Inl e) \<Rightarrow> Some (Inl e)
      | Some (Inr r) \<Rightarrow> Some (Inr (if code r = ResultSUCCEEDED then SUCCEEDED else FAILED)))"

text \<open>Two transports used as concrete inputs: a future that never completes, and one that is
  complete at the third call.\<close>

definition never_complete :: "nat \<Rightarrow> FutureReturnCode" where
  "never_complete k = TIMEOUT"

definition complete_at_third :: "nat \<Rightarrow> FutureReturnCode" where
  "complete_at_third k = (if k < 2 then INTERRUPTED else SUCCESS)"

subsection \<open>The server side of one goal\<close>

text \<open>
  Modelled from the spec: the base class \<open>Recovery\<close> (recovery.hpp), which calls
  \<open>onRun\<close> and \<open>onCycleUpdate\<close>, is not among the sources. The loop below is the cyclic
  phase of the spec's supervisor: the step is invoked once per tick while it answers
  \<open>RUNNING\<close>, and the first other answer is terminal and is not retried. \<open>step k\<close> is
  the answer of the step at tick \<open>k\<close>; \<open>None\<close> says that the phase never ends.
\<close>

partial_function (option) cyclic_run :: "(nat \<Rightarrow> Status) \<Rightarrow> nat \<Rightarrow> Status option" where
  "cyclic_run step k = (if step k = RUNNING then cyclic_run step (Suc k) else Some (step k))"

text \<open>
  Modelled from the spec: one accepted goal run by the supervisor, without cancellation.
  An \<open>initialize\<close> that answers \<open>FAILED\<close> is terminal and no cyclic phase runs (scenario
  "failure on init"); an \<open>initialize\<close> that succeeds is followed by the cyclic phase
  (scenarios "success" and "failure on run", as the tests \<open>testingSuccess\<close> and
  \<open>testingFailureOnRun\<close> of the source expect). \<open>clock k\<close> is the clock as
  \<open>onCycleUpdate\<close> reads it at tick \<open>k\<close>.
\<close>

definition execute ::
  "DummyRecovery \<Rightarrow> string \<Rightarrow> 64 word \<Rightarrow> (nat \<Rightarrow> 64 word)
     \<Rightarrow> (Status \<times> DummyRecovery) option" where
  "execute s goal_command now clock =
     (case onRun s goal_command now of
        (st, s') \<Rightarrow>
          if st = FAILED then Some (FAILED, s')
          else (case cyclic_run (\<lambda>k. onCycleUpdate s' (clock k)) 0 of
                  None \<Rightarrow> None
                | Some r \<Rightarrow> Some (r, s')))"

text \<open>
  Modelled from the spec: the result delivered for a terminal status. Only an explicit
  success carries the code \<open>SUCCEEDED\<close>; a failed instance is reported as aborted.
\<close>

definition result_of :: "Status \<Rightarrow> WrappedResult" where
  "result_of st = \<lparr>code = (if st = SUCCEEDED then ResultSUCCEEDED else ResultABORTED)\<rparr>"

text \<open>
  Modelled from the spec: a goal that \<open>sendCommand\<close> has submitted (handle
  \<open>goal_handle\<close>) is executed by the server, and the client then asks for the outcome
  with \<open>getOutcome\<close>. The recovery's state after the goal is returned with the outcome.
\<close>

definition goal_outcome ::
  "DummyRecovery \<Rightarrow> string \<Rightarrow> 64 word \<Rightarrow> (nat \<Rightarrow> 64 word) \<Rightarrow> nat option
     \<Rightarrow> (nat \<Rightarrow> FutureReturnCode) \<Rightarrow> ((error + Status) \<times> DummyRecovery) option" where
  "goal_outcome s goal_command now clock goal_handle spin =
     (case execute s goal_command now clock of
        None \<Rightarrow> None
      | Some (st, s') \<Rightarrow>
          (case getOutcome goal_handle spin (result_of st) of
             None \<Rightarrow> None
           | Some out \<Rightarrow> Some (out, s')))"

text \<open>Concrete inputs: two answers of the transport, an accepted goal, a state left by an
  earlier goal, a clock that advances by one second per tick from the time 100 s, and two
  readings of the clock further apart than a 64-bit count of nanoseconds.\<close>

definition server_down :: transport where
  "server_down = \<lparr>server_ready = False, send_frc = SUCCESS, sent_handle = Some 1\<rparr>"

definition goal_declined :: transport where
  "goal_declined = \<lparr>server_ready = True, send_frc = SUCCESS, sent_handle = None\<rparr>"

definition used_recovery :: DummyRecovery where
  "used_recovery = \<lparr>initialized = True, command = ''Testing success'', start_time = 7\<rparr>"

definition goal_accepted :: transport where
  "goal_accepted = \<lparr>server_ready = True, send_frc = SUCCESS, sent_handle = Some 1\<rparr>"

definition second_clock :: "nat \<Rightarrow> 64 word" where
  "second_clock k = 100 * 1000000000 + (of_nat k + 1) * 1000000000"

definition early_start :: "64 word" where
  "early_start = - 9000000000000000000"

definition late_reading :: "64 word" where
  "late_reading = 1000000000000000000"

section \<open>The planner tester (planner\_tester.cpp)\<close>

datatype TaskStatus = TaskSUCCEEDED | TaskFAILED | TaskRUNNING

text \<open>
  A value of type \<open>double\<close> or \<open>float\<close>: a finite value, given by the real number it
  stands for (both zeros are \<open>Finite 0\<close>), an infinity, or a NaN. The comparisons are those
  of IEEE 754: a NaN is equal to nothing and greater than nothing.
\<close>

datatype floating = Finite real | PosInf | NegInf | NaN

fun floating_eq :: "floating \<Rightarrow> floating \<Rightarrow> bool" where
  "floating_eq (Finite a) (Finite b) = (a = b)"
| "floating_eq PosInf PosInf = True"
| "floating_eq NegInf NegInf = True"
| "floating_eq _ _ = False"

fun floating_gt :: "floating \<Rightarrow> floating \<Rightarrow> bool" where
  "floating_gt (Finite a) (Finite b) = (a > b)"
| "floating_gt (Finite a) NegInf = True"
| "floating_gt PosInf (Finite b) = True"
| "floating_gt PosInf NegInf = True"
| "floating_gt _ _ = False"

text \<open>\<open>std::round\<close>: to the nearest integer, halfway cases away from zero.\<close>

definition cpp_round :: "real \<Rightarrow> int" where
  "cpp_round r = (if 0 \<le> r then \<lfloor>r + 1 / 2\<rfloor> else - \<lfloor>- r + 1 / 2\<rfloor>)"

fun std_round :: "floating \<Rightarrow> floating" where
  "std_round (Finite r) = Finite (of_int (cpp_round r))"
| "std_round d = d"

definition trunc :: "real \<Rightarrow> int" where
  "trunc r = (if 0 \<le> r then \<lfloor>r\<rfloor> else \<lceil>r\<rceil>)"

text \<open>
  \<open>static_cast<unsigned int>\<close> of a \<open>double\<close>: the value is truncated, and the language
  defines the result only when the truncated value is an \<open>unsigned int\<close>. For every other
  argument the result is whatever the platform yields, the parameter \<open>ub\<close>.
\<close>

definition static_cast_uint :: "(floating \<Rightarrow> 32 word) \<Rightarrow> floating \<Rightarrow> 32 word" where
  "static_cast_uint ub d =
     (case d of
        Finite r \<Rightarrow> if 0 \<le> trunc r \<and> trunc r < 2 ^ 32 then word_of_int (trunc r) else ub d
      | _ \<Rightarrow> ub d)"


text \<open>The conversion of an \<open>unsigned int\<close> to \<open>float\<close>, exact below \<open>2 ^ 24\<close>.\<close>

definition uint_to_float :: "32 word \<Rightarrow> floating" where
  "uint_to_float w = Finite (real (unat w))"

text \<open>The position of a pose: \<open>position.x\<close> and \<open>position.y\<close> (\<open>z\<close> is never read).\<close>

record Point =
  position_x :: floating
  position_y :: floating

text \<open>
  \<open>PlannerTester::isCollisionFree\<close> on \<open>path.poses\<close>. The costmap is not among the
  sources: its predicate \<open>is_free\<close> on a cell is a parameter.
\<close>

fun isCollisionFree ::
  "(floating \<Rightarrow> 32 word) \<Rightarrow> (32 word \<Rightarrow> 32 word \<Rightarrow> bool) \<Rightarrow> Point list \<Rightarrow> bool" where
  "isCollisionFree ub is_free [] = True"
| "isCollisionFree ub is_free (pose # poses) =
     (let collisionFree =
        is_free (static_cast_uint ub (std_round (position_x pose)))
                (static_cast_uint ub (std_round (position_y pose)))
      in if \<not> collisionFree then False else isCollisionFree ub is_free poses)"

text \<open>
  The overload of \<open>PlannerTester::isWithinTolerance\<close> with five parameters. Reading
  \<open>path.poses[0]\<close> or \<open>path.poses.end()[-1]\<close> of an empty vector is out of bounds, the
  error \<open>OutOfBounds\<close>.
\<close>

definition isWithinTolerance5 ::
  "Point \<Rightarrow> Point \<Rightarrow> Point list \<Rightarrow> floating \<Rightarrow> Point list \<Rightarrow> error + bool" where
  "isWithinTolerance5 robot_position goal poses deviationTolerance reference_path =
     (case poses of
        [] \<Rightarrow> Inl OutOfBounds
      | _ # _ \<Rightarrow>
          let path_start = poses ! 0;
              path_end = poses ! (length poses - 1)
          in if floating_eq (position_x path_start) (position_x robot_position) \<and>
                floating_eq (position_y path_start) (position_y robot_position) \<and>
                floating_eq (position_x path_end) (position_x goal) \<and>
                floating_eq (position_y path_end) (position_y goal)
             then Inr True
             else Inr False)"

text \<open>The overload with three parameters.\<close>

definition isWithinTolerance :: "Point \<Rightarrow> Point \<Rightarrow> Point list \<Rightarrow> error + bool" where
  "isWithinTolerance robot_position goal poses =
     isWithinTolerance5 robot_position goal poses (Finite 0) []"

text \<open>
  What the planner's action server answers to one request: whether the goal future is ready
  within five seconds, the goal handle (\<open>None\<close> for a rejected goal), whether the result
  future is ready within ten seconds, and the result.
\<close>

record planner_reply =
  goal_ready :: bool
  goal_handle :: "nat option"
  result_ready :: bool
  result_code :: ResultCode
  result_path :: "Point list"

text \<open>\<open>PlannerTester::sendRequest\<close>; the reference parameter \<open>path\<close> is returned.\<close>

definition sendRequest :: "planner_reply \<Rightarrow> Point list \<Rightarrow> TaskStatus \<times> Point list" where
  "sendRequest reply path =
     (if \<not> goal_ready reply then (TaskFAILED, path)
      else if goal_handle reply = None then (TaskFAILED, path)
      else if \<not> result_ready reply then (TaskFAILED, path)
      else if result_code reply \<noteq> ResultSUCCEEDED then (TaskFAILED, path)
      else (TaskSUCCEEDED, result_path reply))"

text \<open>\<open>PlannerTester::plannerTest\<close>; \<open>&&\<close> evaluates its right operand only when the
  left one is true.\<close>

definition plannerTest ::
  "(floating \<Rightarrow> 32 word) \<Rightarrow> (32 word \<Rightarrow> 32 word \<Rightarrow> bool) \<Rightarrow> planner_reply
     \<Rightarrow> Point \<Rightarrow> Point \<Rightarrow> Point list \<Rightarrow> (error + bool) \<times> Point list" where
  "plannerTest ub is_free reply robot_position goal path =
     (case sendRequest reply path of
        (status, path') \<Rightarrow>
          if status = TaskFAILED then (Inr False, path')
          else if status = TaskSUCCEEDED then
            (if isCollisionFree ub is_free path'
             then (isWithinTolerance robot_position goal path', path')
             else (Inr False, path'))
          else (Inr False, path'))"

text \<open>
  The lambda \<open>generate_random\<close> of \<open>defaultPlannerRandomTests\<close>. \<open>rng i\<close> is the
  \<open>i\<close>-th pair that the two distributions draw; the loop draws until the cell is free and
  returns the pair with the number of the next draw. The \<open>int\<close> coordinates are converted to
  the \<open>unsigned int\<close> parameters of \<open>is_free\<close>. \<open>None\<close> says that the loop never ends.
\<close>

partial_function (option) generate_random ::
  "(32 word \<Rightarrow> 32 word \<Rightarrow> bool) \<Rightarrow> (nat \<Rightarrow> int \<times> int) \<Rightarrow> nat \<Rightarrow> ((int \<times> int) \<times> nat) option" where
  "generate_random is_free rng i =
     (if \<not> is_free (word_of_int (fst (rng i))) (word_of_int (snd (rng i)))
      then generate_random is_free rng (Suc i)
      else Some (rng i, Suc i))"

text \<open>
  The \<open>for\<close> loop of \<open>defaultPlannerRandomTests\<close>, with \<open>remaining\<close> iterations to go:
  \<open>test_num\<close> counts the trials, \<open>i\<close> the draws, \<open>replies test_num\<close> is the planner's
  answer to the request of trial \<open>test_num\<close>, and \<open>num_fail\<close> is the \<open>unsigned int\<close>
  counter. The loop returns \<open>num_fail\<close>.
\<close>

fun random_trials ::
  "(floating \<Rightarrow> 32 word) \<Rightarrow> (32 word \<Rightarrow> 32 word \<Rightarrow> bool) \<Rightarrow> (nat \<Rightarrow> int \<times> int)
     \<Rightarrow> (nat \<Rightarrow> planner_reply) \<Rightarrow> nat \<Rightarrow> nat \<Rightarrow> nat \<Rightarrow> Point list \<Rightarrow> 32 word
     \<Rightarrow> (error + 32 word) option" where
  "random_trials ub is_free rng replies 0 test_num i path num_fail = Some (Inr num_fail)"
| "random_trials ub is_free rng replies (Suc remaining) test_num i path num_fail =
     (case generate_random is_free rng i of
        None \<Rightarrow> None
      | Some (vals, i1) \<Rightarrow>
          (case generate_random is_free rng i1 of
             None \<Rightarrow> None
           | Some (vals2, i2) \<Rightarrow>
               (let robot_position =
                      \<lparr>position_x = Finite (of_int (fst vals)),
                       position_y = Finite (of_int (snd vals))\<rparr>;
                    goal =
                      \<lparr>position_x = Finite (of_int (fst vals2)),
                       position_y = Finite (of_int (snd vals2))\<rparr>
                in case plannerTest ub is_free (replies test_num) robot_position goal path of
                     (Inl e, path') \<Rightarrow> Some (Inl e)
                   | (Inr passed, path') \<Rightarrow>
                       random_trials ub is_free rng replies remaining (Suc test_num) i2 path'
                         (if \<not> passed then num_fail + 1 else num_fail))))"

text \<open>
  \<open>PlannerTester::defaultPlannerRandomTests\<close>. \<open>planner_running\<close> says whether
  \<open>waitForPlanner\<close> finds the action server; otherwise it throws. The quotient
  \<open>num_fail / number_tests\<close> is a division of two \<open>unsigned int\<close> values, undefined for
  the divisor zero, and its result is converted to \<open>float\<close> for the comparison.
\<close>

definition defaultPlannerRandomTests ::
  "bool \<Rightarrow> bool \<Rightarrow> bool \<Rightarrow> (floating \<Rightarrow> 32 word) \<Rightarrow> (32 word \<Rightarrow> 32 word \<Rightarrow> bool)
     \<Rightarrow> (nat \<Rightarrow> int \<times> int) \<Rightarrow> (nat \<Rightarrow> planner_reply) \<Rightarrow> 32 word \<Rightarrow> floating
     \<Rightarrow> (error + bool) option" where
  "defaultPlannerRandomTests costmap_set using_fake_costmap planner_running ub is_free rng replies
       number_tests acceptable_fail_ratio =
     (if \<not> costmap_set then Some (Inr False)
      else if using_fake_costmap then Some (Inr False)
      else if \<not> planner_running then Some (Inl PlannerNotRunning)
      else (case random_trials ub is_free rng replies (unat number_tests) 0 0 [] 0 of
              None \<Rightarrow> None
            | Some (Inl e) \<Rightarrow> Some (Inl e)
            | Some (Inr num_fail) \<Rightarrow>
                if number_tests = 0 then Some (Inl DivisionByZero)
                else if floating_gt (uint_to_float (num_fail div number_tests))
                          acceptable_fail_ratio
                     then Some (Inr False)
                     else Some (Inr True)))"

text \<open>
  Concrete inputs: a costmap without obstacles, a platform that converts every value outside
  the range of \<open>unsigned int\<close> to zero, draws along the diagonal, a planner that fails
  the requests with an even number and answers the others with the straight path between the
  two points drawn, and a planner that reports success with a path of no points.
\<close>

definition open_space :: "32 word \<Rightarrow> 32 word \<Rightarrow> bool" where
  "open_space mx my = True"

definition to_zero :: "floating \<Rightarrow> 32 word" where
  "to_zero d = 0"

definition diagonal :: "nat \<Rightarrow> int \<times> int" where
  "diagonal i = (int i + 1, int i + 1)"

definition point :: "int \<Rightarrow> int \<Rightarrow> Point" where
  "point a b = \<lparr>position_x = Finite (of_int a), position_y = Finite (of_int b)\<rparr>"

definition failed_reply :: planner_reply where
  "failed_reply =
     \<lparr>goal_ready = True, goal_handle = Some 0, result_ready = True,
      result_code = ResultABORTED, result_path = []\<rparr>"

definition path_reply :: "Point list \<Rightarrow> planner_reply" where
  "path_reply poses =
     \<lparr>goal_ready = True, goal_handle = Some 0, result_ready = True,
      result_code = ResultSUCCEEDED, result_path = poses\<rparr>"

definition every_other_fails :: "nat \<Rightarrow> planner_reply" where
  "every_other_fails test_num =
     (if even test_num then failed_reply
      else path_reply [point (2 * int test_num + 1) (2 * int test_num + 1),
                       point (2 * int test_num + 2) (2 * int test_num + 2)])"

text \<open>
  Further concrete inputs: a costmap whose column 3 is an obstacle, and a pose half a cell
  off the point (1, 1).
\<close>

definition column_blocked :: "32 word \<Rightarrow> 32 word \<Rightarrow> bool" where
  "column_blocked mx my = (mx \<noteq> 3)"




definition near_start :: Point where
  "near_start = \<lparr>position_x = Finite (3 / 2), position_y = Finite 1\<rparr>"

definition in_column_3 :: Point where
  "in_column_3 = \<lparr>position_x = Finite (13 / 5), position_y = Finite 1\<rparr>"

section \<open>Properties of the recovery test\<close>

subsection \<open>The two loops\<close>

lemma spin_loop_first:
  "spin n = SUCCESS \<Longrightarrow> k \<le> n \<Longrightarrow> (\<forall>j. k \<le> j \<and> j < n \<longrightarrow> spin j \<noteq> SUCCESS)
     \<Longrightarrow> spin_loop spin k = Some n"
proof (induction "n - k" arbitrary: k)
  case 0
  then have "k = n" by simp
  with 0 show ?case by (subst spin_loop.simps) simp
next
  case (Suc d)
  then have a: "spin k \<noteq> SUCCESS" and b: "Suc k \<le> n" by auto
  have "spin_loop spin (Suc k) = Some n"
    using Suc.hyps(1)[of "Suc k"] Suc.hyps(2) Suc.prems b by auto
  with a show ?case by (subst spin_loop.simps) simp
qed

lemma spin_loop_some:
  "spin_loop spin k = Some n \<Longrightarrow> spin n = SUCCESS"
  by (rule spin_loop.raw_induct [where P = "\<lambda>sp i r. sp r = SUCCESS"])
     (auto split: if_splits)

lemma spin_loop_never:
  assumes "\<forall>j. spin j \<noteq> SUCCESS"
  shows "spin_loop spin k = None"
proof (cases "spin_loop spin k")
  case None
  then show ?thesis .
next
  case (Some n)
  then have "spin n = SUCCESS" by (rule spin_loop_some)
  with assms show ?thesis by simp
qed

lemma spin_loop_returns:
  assumes "spin m = SUCCESS"
  shows "\<exists>n. spin_loop spin 0 = Some n"
proof -
  define n where "n = (LEAST j. spin j = SUCCESS)"
  have "spin n = SUCCESS" unfolding n_def using assms by (rule LeastI)
  moreover have "\<forall>j. 0 \<le> j \<and> j < n \<longrightarrow> spin j \<noteq> SUCCESS"
    unfolding n_def using not_less_Least by blast
  ultimately have "spin_loop spin 0 = Some n" by (intro spin_loop_first) auto
  then show ?thesis by blast
qed

lemma cyclic_run_first:
  "step n \<noteq> RUNNING \<Longrightarrow> k \<le> n \<Longrightarrow> (\<forall>j. k \<le> j \<and> j < n \<longrightarrow> step j = RUNNING)
     \<Longrightarrow> cyclic_run step k = Some (step n)"
proof (induction "n - k" arbitrary: k)
  case 0
  then have "k = n" by simp
  with 0 show ?case by (subst cyclic_run.simps) simp
next
  case (Suc d)
  then have a: "step k = RUNNING" and b: "Suc k \<le> n" by auto
  have "cyclic_run step (Suc k) = Some (step n)"
    using Suc.hyps(1)[of "Suc k"] Suc.hyps(2) Suc.prems b by auto
  with a show ?case by (subst cyclic_run.simps) simp
qed

lemma getResult_eq:
  "getResult (Some h) spin v = (if \<exists>k. spin k = SUCCESS then Some (Inr v) else None)"
proof (cases "\<exists>k. spin k = SUCCESS")
  case True
  then obtain n where "spin_loop spin 0 = Some n" using spin_loop_returns by blast
  with True show ?thesis by (simp add: getResult_def)
next
  case False
  then have "spin_loop spin 0 = None" by (intro spin_loop_never) simp
  with False show ?thesis by (simp add: getResult_def)
qed

lemma getOutcome_eq:
  "getOutcome (Some h) spin v =
     (if \<exists>k. spin k = SUCCESS
      then Some (Inr (if code v = ResultSUCCEEDED then SUCCEEDED else FAILED)) else None)"
  by (simp add: getOutcome_def getResult_eq)

lemma onRun_overwrites: "onRun s c t = onRun s' c t"
  by (cases s, cases s') (simp add: onRun_def)

text \<open>
  Counterexample to C4 as stated: when no call of \<open>spin_until_future_complete\<close> ever
  returns \<open>SUCCESS\<close>, \<open>getResult\<close> and with it \<open>getOutcome\<close> never return;
  no wait budget ends the loop.
\<close>

theorem getResult_unbounded_counterexample:
  "getResult (Some 0) never_complete \<lparr>code = ResultSUCCEEDED\<rparr> = None \<and>
   getOutcome (Some 0) never_complete \<lparr>code = ResultSUCCEEDED\<rparr> = None"
proof -
  have "\<forall>j. never_complete j \<noteq> SUCCESS" by (simp add: never_complete_def)
  then have "spin_loop never_complete 0 = None" by (rule spin_loop_never)
  then show ?thesis by (simp add: getOutcome_def getResult_def)
qed

lemma spin_loop_iff:
  "(spin_loop spin 0 = Some n) = (spin n = SUCCESS \<and> (\<forall>j<n. spin j \<noteq> SUCCESS))"
proof
  assume r: "spin_loop spin 0 = Some n"
  then have s: "spin n = SUCCESS" by (rule spin_loop_some)
  have "\<forall>j<n. spin j \<noteq> SUCCESS"
  proof (rule ccontr)
    assume "\<not> (\<forall>j<n. spin j \<noteq> SUCCESS)"
    then have "\<exists>j. spin j = SUCCESS \<and> j < n" by auto
    then obtain j where j: "spin j = SUCCESS \<and> j < n"
      and least: "\<forall>i<j. \<not> (spin i = SUCCESS \<and> i < n)"
      using exists_least_iff [of "\<lambda>j. spin j = SUCCESS \<and> j < n"] by blast
    then have "\<forall>i. 0 \<le> i \<and> i < j \<longrightarrow> spin i \<noteq> SUCCESS" by auto
    with j have "spin_loop spin 0 = Some j" by (intro spin_loop_first) auto
    with r j show False by simp
  qed
  with s show "spin n = SUCCESS \<and> (\<forall>j<n. spin j \<noteq> SUCCESS)" by simp
next
  assume "spin n = SUCCESS \<and> (\<forall>j<n. spin j \<noteq> SUCCESS)"
  then show "spin_loop spin 0 = Some n" by (intro spin_loop_first) auto
qed

text \<open>
  C4, amended: \<open>getResult\<close> waits without a bound. It repeats the untimed
  \<open>spin_until_future_complete\<close> until a call returns \<open>SUCCESS\<close>: it returns the
  value of the result future exactly when some call does, after the first such call and not
  before, and it never returns otherwise. \<open>getOutcome\<close> then reports \<open>SUCCEEDED\<close>
  for the result code \<open>SUCCEEDED\<close> and \<open>FAILED\<close> for every other code.
\<close>

theorem getResult_waits_until_complete:
  "getResult (Some h) spin v = (if \<exists>k. spin k = SUCCESS then Some (Inr v) else None) \<and>
   getOutcome (Some h) spin v =
     (if \<exists>k. spin k = SUCCESS
      then Some (Inr (if code v = ResultSUCCEEDED then SUCCEEDED else FAILED)) else None) \<and>
   (spin_loop spin 0 = Some n) = (spin n = SUCCESS \<and> (\<forall>j<n. spin j \<noteq> SUCCESS))"
  using getResult_eq [of h spin v] getOutcome_eq [of h spin v] spin_loop_iff [of spin n]
  by blast

text \<open>
  The amended C4 at a future that is complete at the third call: two calls fail, the third
  ends the loop, and an aborted result is reported as \<open>FAILED\<close>.
\<close>

theorem getResult_waits_until_complete_witness:
  "getResult (Some 0) complete_at_third \<lparr>code = ResultABORTED\<rparr> = Some (Inr \<lparr>code = ResultABORTED\<rparr>) \<and>
   getOutcome (Some 0) complete_at_third \<lparr>code = ResultABORTED\<rparr> = Some (Inr FAILED) \<and>
   spin_loop complete_at_third 0 = Some 2 \<and>
   complete_at_third 0 \<noteq> SUCCESS \<and> complete_at_third 1 \<noteq> SUCCESS"
proof -
  have a: "\<exists>k. complete_at_third k = SUCCESS"
    by (rule exI [of _ 2]) (simp add: complete_at_third_def)
  have b: "complete_at_third 2 = SUCCESS \<and> (\<forall>j<2. complete_at_third j \<noteq> SUCCESS)"
    by (simp add: complete_at_third_def)
  show ?thesis
    using getResult_waits_until_complete [of 0 complete_at_third "\<lparr>code = ResultABORTED\<rparr>" 2] a b
    by (simp add: complete_at_third_def)
qed

text \<open>
  Counterexample to C5 as stated: on a fresh fixture, a server that is not ready and a server
  that declines the goal leave \<open>sendCommand\<close> with the same return value and the same
  \<open>goal_handle_\<close>.
\<close>

theorem sendCommand_same_failure_counterexample:
  "sendCommand server_down None = sendCommand goal_declined None"
  by (simp add: sendCommand_def server_down_def goal_declined_def)

text \<open>
  C5, amended: the return value of \<open>sendCommand\<close> does not distinguish its failures. It
  is \<open>true\<close> exactly when the action server is ready within the wait, the goal is sent and
  the server accepts it, and it is the same \<open>false\<close> for a server that is not ready, a goal
  that cannot be sent and a goal that is rejected. The one trace of the cause is the member
  \<open>goal_handle_\<close>, assigned before the null test: a rejected goal leaves it null, a server
  that is not ready leaves it as it was. The two outcomes are therefore the same exactly on a
  fixture whose \<open>goal_handle_\<close> is null, as it is on a fresh one, and differ in
  \<open>goal_handle_\<close> alone when the handle of an earlier goal is stored.
\<close>

theorem sendCommand_single_failure_value:
  "fst (sendCommand tr gh) =
     (server_ready tr \<and> send_frc tr = SUCCESS \<and> sent_handle tr \<noteq> None) \<and>
   snd (sendCommand tr gh) =
     (if server_ready tr \<and> send_frc tr = SUCCESS then sent_handle tr else gh) \<and>
   (\<not> server_ready tr \<and> server_ready tr' \<and> send_frc tr' = SUCCESS \<and> sent_handle tr' = None
      \<longrightarrow> sendCommand tr gh = (False, gh) \<and>
          sendCommand tr' gh = (False, None) \<and>
          (sendCommand tr gh = sendCommand tr' gh) = (gh = None))"
  by (auto simp add: sendCommand_def Let_def)

text \<open>
  The amended C5 on a server that is not ready and on one that declines the goal, with no
  handle stored and with the handle 5 of an earlier goal stored, and on a goal that is
  accepted.
\<close>

theorem sendCommand_single_failure_value_witness:
  "sendCommand server_down None = (False, None) \<and>
   sendCommand goal_declined None = (False, None) \<and>
   sendCommand server_down (Some 5) = (False, Some 5) \<and>
   sendCommand goal_declined (Some 5) = (False, None) \<and>
   sendCommand goal_accepted (Some 5) = (True, Some 1)"
proof -
  have a: "\<not> server_ready server_down \<and> server_ready goal_declined \<and>
           send_frc goal_declined = SUCCESS \<and> sent_handle goal_declined = None"
    by (simp add: server_down_def goal_declined_def)
  have b: "sendCommand goal_accepted (Some 5) = (True, Some 1)"
    using sendCommand_single_failure_value [of goal_accepted "Some 5" goal_accepted]
    by (simp add: goal_accepted_def prod_eq_iff)
  show ?thesis
    using sendCommand_single_failure_value [of server_down None goal_declined]
      sendCommand_single_failure_value [of server_down "Some 5" goal_declined] a b
    by simp
qed

lemma onRun_success:
  "onRun s ''Testing success'' now =
     (SUCCEEDED, \<lparr>initialized = True, command = ''Testing success'', start_time = now\<rparr>)"
  by (cases s) (simp add: onRun_def)

lemma onRun_failure_on_run:
  "onRun s ''Testing failure on run'' now =
     (SUCCEEDED, \<lparr>initialized = True, command = ''Testing failure on run'', start_time = now\<rparr>)"
  by (cases s) (simp add: onRun_def)

lemma onRun_failure_on_init:
  "onRun s ''Testing failure on init'' now =
     (FAILED, \<lparr>initialized = False, command = ''Testing failure on init'', start_time = now\<rparr>)"
  by (cases s) (simp add: onRun_def)

lemma sint_difference:
  fixes a b :: "64 word"
  assumes "- (2 ^ 63) \<le> sint a - sint b" and "sint a - sint b < 2 ^ 63"
  shows "sint (a - b) = sint a - sint b"
  using assms by (simp add: sint_word_ariths signed_take_bit_int_eq_self)

lemma onCycleUpdate_success:
  assumes "- (2 ^ 63) \<le> sint t - sint now" and "sint t - sint now < 2 ^ 63"
  shows "onCycleUpdate \<lparr>initialized = True, command = ''Testing success'', start_time = now\<rparr> t =
     (if sint t - sint now < motion_duration then RUNNING else SUCCEEDED)"
  using sint_difference [OF assms] by (simp add: onCycleUpdate_def)

text \<open>
  Outside that range the subtraction wraps around: with a start at \<open>- 9 * 10 ^ 18\<close> and a
  reading at \<open>10 ^ 18\<close> nanoseconds the step answers \<open>RUNNING\<close>.
\<close>

lemma onCycleUpdate_wraps:
  "onCycleUpdate \<lparr>initialized = True, command = ''Testing success'', start_time = early_start\<rparr>
     late_reading = RUNNING"
  by (simp add: onCycleUpdate_def early_start_def late_reading_def motion_duration_def)

lemma onCycleUpdate_failure_on_run:
  "onCycleUpdate \<lparr>initialized = True, command = ''Testing failure on run'', start_time = now\<rparr> t
     = FAILED"
  by (simp add: onCycleUpdate_def)

lemma execute_success:
  assumes "\<forall>k\<le>n. - (2 ^ 63) \<le> sint (clock k) - sint now \<and> sint (clock k) - sint now < 2 ^ 63"
    and "\<forall>k<n. sint (clock k) - sint now < motion_duration"
    and "motion_duration \<le> sint (clock n) - sint now"
  shows "execute s ''Testing success'' now clock =
     Some (SUCCEEDED, \<lparr>initialized = True, command = ''Testing success'', start_time = now\<rparr>)"
proof -
  let ?s = "\<lparr>initialized = True, command = ''Testing success'', start_time = now\<rparr>"
  let ?step = "\<lambda>k. onCycleUpdate ?s (clock k)"
  have r: "\<And>k. k \<le> n \<Longrightarrow>
      ?step k = (if sint (clock k) - sint now < motion_duration then RUNNING else SUCCEEDED)"
    using assms(1) by (intro onCycleUpdate_success) auto
  have a: "?step n = SUCCEEDED" using assms(3) r [of n] by simp
  have b: "\<forall>j. 0 \<le> j \<and> j < n \<longrightarrow> ?step j = RUNNING"
    using assms(2) r by simp
  have "cyclic_run ?step 0 = Some (?step n)" using a b by (intro cyclic_run_first) auto
  with a show ?thesis by (simp add: execute_def onRun_success)
qed

lemma execute_failure_on_run:
  "execute s ''Testing failure on run'' now clock =
     Some (FAILED, \<lparr>initialized = True, command = ''Testing failure on run'', start_time = now\<rparr>)"
proof -
  let ?s = "\<lparr>initialized = True, command = ''Testing failure on run'', start_time = now\<rparr>"
  have "cyclic_run (\<lambda>k. onCycleUpdate ?s (clock k)) 0 = Some FAILED"
    by (subst cyclic_run.simps) (simp add: onCycleUpdate_failure_on_run)
  then show ?thesis by (simp add: execute_def onRun_failure_on_run)
qed

lemma execute_failure_on_init:
  "execute s ''Testing failure on init'' now clock =
     Some (FAILED, \<lparr>initialized = False, command = ''Testing failure on init'', start_time = now\<rparr>)"
  by (simp add: execute_def onRun_failure_on_init)

lemma getOutcome_of_status:
  assumes "spin m = SUCCESS"
  shows "getOutcome (Some h) spin (result_of st) =
     Some (Inr (if st = SUCCEEDED then SUCCEEDED else FAILED))"
proof -
  have "\<exists>k. spin k = SUCCESS" using assms by blast
  then show ?thesis by (simp add: getOutcome_eq result_of_def)
qed

text \<open>
  C6: for the command "Testing success", \<open>onRun\<close> returns \<open>SUCCEEDED\<close> (the
  outcome after which the cyclic phase runs) with the behaviour initialized and the start time
  captured; \<open>onCycleUpdate\<close> returns \<open>RUNNING\<close> at every tick where the time elapsed
  since the start is below the motion duration of 5 s, and \<open>SUCCEEDED\<close> at the first tick
  \<open>n\<close> where it is at least that duration; so the goal ends \<open>SUCCEEDED\<close> and, once
  the result future completes, \<open>getOutcome\<close> yields \<open>SUCCEEDED\<close>. The elapsed time is
  the difference of the two clock readings, and the readings are those whose difference is
  a signed 64-bit count of nanoseconds (within about 292 years of the start).
\<close>

theorem testing_success:
  assumes "\<forall>k\<le>n. - (2 ^ 63) \<le> sint (clock k) - sint now \<and> sint (clock k) - sint now < 2 ^ 63"
    and "\<forall>k<n. sint (clock k) - sint now < motion_duration"
    and "motion_duration \<le> sint (clock n) - sint now"
    and "spin m = SUCCESS"
  shows "onRun s ''Testing success'' now =
           (SUCCEEDED, \<lparr>initialized = True, command = ''Testing success'', start_time = now\<rparr>) \<and>
         (\<forall>t. - (2 ^ 63) \<le> sint t - sint now \<and> sint t - sint now < 2 ^ 63 \<longrightarrow>
            onCycleUpdate \<lparr>initialized = True, command = ''Testing success'', start_time = now\<rparr> t =
              (if sint t - sint now < 5 * 1000000000 then RUNNING else SUCCEEDED)) \<and>
         (\<forall>k<n. onCycleUpdate (snd (onRun s ''Testing success'' now)) (clock k) = RUNNING) \<and>
         onCycleUpdate (snd (onRun s ''Testing success'' now)) (clock n) = SUCCEEDED \<and>
         execute s ''Testing success'' now clock =
           Some (SUCCEEDED, snd (onRun s ''Testing success'' now)) \<and>
         goal_outcome s ''Testing success'' now clock (Some h) spin =
           Some (Inr SUCCEEDED, snd (onRun s ''Testing success'' now))"
proof -
  let ?s = "\<lparr>initialized = True, command = ''Testing success'', start_time = now\<rparr>"
  have e: "execute s ''Testing success'' now clock = Some (SUCCEEDED, ?s)"
    using assms(1,2,3) by (rule execute_success)
  have g: "goal_outcome s ''Testing success'' now clock (Some h) spin = Some (Inr SUCCEEDED, ?s)"
    using e assms(4)
      getOutcome_of_status [where spin = spin and m = m and h = h and st = SUCCEEDED]
    by (simp add: goal_outcome_def)
  have u: "\<forall>t. - (2 ^ 63) \<le> sint t - sint now \<and> sint t - sint now < 2 ^ 63 \<longrightarrow>
            onCycleUpdate ?s t = (if sint t - sint now < 5 * 1000000000 then RUNNING else SUCCEEDED)"
    using onCycleUpdate_success [of _ now] by (simp add: motion_duration_def)
  have r: "\<And>k. k \<le> n \<Longrightarrow>
      onCycleUpdate ?s (clock k) =
        (if sint (clock k) - sint now < motion_duration then RUNNING else SUCCEEDED)"
    using assms(1) by (intro onCycleUpdate_success) auto
  have b: "\<forall>k<n. onCycleUpdate ?s (clock k) = RUNNING" using assms(2) r by simp
  have a: "onCycleUpdate ?s (clock n) = SUCCEEDED" using assms(3) r [of n] by simp
  show ?thesis using e g u a b by (simp add: onRun_success)
qed

lemma second_clock_reading:
  assumes "k \<le> 4"
  shows "sint (second_clock k) = 101000000000 + int k * 1000000000"
proof -
  from assms consider "k = 0" | "k = 1" | "k = 2" | "k = 3" | "k = 4" by linarith
  then show ?thesis by cases (simp_all add: second_clock_def)
qed

text \<open>
  C6 on a fresh recovery started at 100 s, with a clock that is read once per second: the
  ticks up to 4 s after the start are \<open>RUNNING\<close>, the tick at 5 s succeeds.
\<close>

theorem testing_success_witness:
  "sint (second_clock 0) - sint (100000000000 :: 64 word) = 1000000000 \<and>
   sint (second_clock 3) - sint (100000000000 :: 64 word) = 4000000000 \<and>
   sint (second_clock 4) - sint (100000000000 :: 64 word) = 5000000000 \<and>
   motion_duration = 5000000000 \<and>
   complete_at_third 2 = SUCCESS \<and>
   onCycleUpdate (snd (onRun fresh_recovery ''Testing success'' 100000000000)) (second_clock 3) = RUNNING \<and>
   onCycleUpdate (snd (onRun fresh_recovery ''Testing success'' 100000000000)) (second_clock 4) = SUCCEEDED \<and>
   goal_outcome fresh_recovery ''Testing success'' 100000000000 second_clock (Some 0)
       complete_at_third =
     Some (Inr SUCCEEDED,
           \<lparr>initialized = True, command = ''Testing success'', start_time = 100000000000\<rparr>)"
proof -
  have r: "\<forall>k\<le>4. - (2 ^ 63) \<le> sint (second_clock k) - sint (100000000000 :: 64 word) \<and>
                 sint (second_clock k) - sint (100000000000 :: 64 word) < 2 ^ 63"
    by (simp add: second_clock_reading)
  have a: "\<forall>k<4. sint (second_clock k) - sint (100000000000 :: 64 word) < motion_duration"
    by (simp add: second_clock_reading motion_duration_def)
  have b: "motion_duration \<le> sint (second_clock 4) - sint (100000000000 :: 64 word)"
    by (simp add: second_clock_reading motion_duration_def)
  have c: "complete_at_third 2 = SUCCESS" by (simp add: complete_at_third_def)
  have d: "(3::nat) < 4" by simp
  show ?thesis
    using testing_success [where clock = second_clock and now = 100000000000 and n = 4
        and spin = complete_at_third and m = 2 and s = fresh_recovery and h = 0] r a b c d
    by (simp add: onRun_success second_clock_reading motion_duration_def)
qed

text \<open>
  Counterexample to C7 as stated: for the command "Testing failure on run", \<open>onRun\<close>
  does not leave the initialized flag false; it sets it.
\<close>

theorem failure_on_run_initialized_counterexample:
  "initialized (snd (onRun fresh_recovery ''Testing failure on run'' 0)) \<noteq> False"
  by (simp add: onRun_def fresh_recovery_def)

text \<open>
  C7, amended: for the command "Testing failure on run", \<open>onRun\<close> returns
  \<open>SUCCEEDED\<close> and sets the initialized flag; every \<open>onCycleUpdate\<close>, and so the
  first one, returns \<open>FAILED\<close>, because the stored command is not "Testing success"; the
  goal ends \<open>FAILED\<close> and \<open>getOutcome\<close> yields \<open>FAILED\<close>.
\<close>

theorem testing_failure_on_run:
  assumes "spin m = SUCCESS"
  shows "onRun s ''Testing failure on run'' now =
           (SUCCEEDED,
            \<lparr>initialized = True, command = ''Testing failure on run'', start_time = now\<rparr>) \<and>
         (\<forall>t. onCycleUpdate (snd (onRun s ''Testing failure on run'' now)) t = FAILED) \<and>
         execute s ''Testing failure on run'' now clock =
           Some (FAILED, snd (onRun s ''Testing failure on run'' now)) \<and>
         goal_outcome s ''Testing failure on run'' now clock (Some h) spin =
           Some (Inr FAILED, snd (onRun s ''Testing failure on run'' now))"
  using execute_failure_on_run [of s now clock] assms
    getOutcome_of_status [where spin = spin and m = m and h = h and st = FAILED]
  by (simp add: goal_outcome_def onRun_failure_on_run onCycleUpdate_failure_on_run)

text \<open>
  The amended C7 on a fresh recovery.
\<close>

theorem testing_failure_on_run_witness:
  "complete_at_third 2 = SUCCESS \<and>
   onRun fresh_recovery ''Testing failure on run'' 100000000000 =
     (SUCCEEDED,
      \<lparr>initialized = True, command = ''Testing failure on run'', start_time = 100000000000\<rparr>) \<and>
   onCycleUpdate (snd (onRun fresh_recovery ''Testing failure on run'' 100000000000))
       (second_clock 0) = FAILED \<and>
   goal_outcome fresh_recovery ''Testing failure on run'' 100000000000 second_clock (Some 0)
       complete_at_third =
     Some (Inr FAILED,
           \<lparr>initialized = True, command = ''Testing failure on run'', start_time = 100000000000\<rparr>)"
proof -
  have c: "complete_at_third 2 = SUCCESS" by (simp add: complete_at_third_def)
  show ?thesis
    using testing_failure_on_run [where spin = complete_at_third and m = 2
        and s = fresh_recovery and now = 100000000000 and clock = second_clock and h = 0] c
    by (simp add: onRun_failure_on_run)
qed

text \<open>
  C8: the failure-on-init goal followed by the failure-on-run goal on the same recovery gives
  \<open>FAILED\<close> and then \<open>FAILED\<close>, and the second goal ends as it does on a fresh
  instance: \<open>onRun\<close> overwrites the initialized flag, the command and the start time
  from the new goal and the clock alone, so its result is the same from every prior state.
\<close>

theorem sequential_failures:
  assumes "spin_a m_a = SUCCESS" and "spin_b m_b = SUCCESS"
  shows "fst (onRun s ''Testing failure on init'' t_a) = FAILED \<and>
         goal_outcome s ''Testing failure on init'' t_a clock_a (Some h_a) spin_a =
           Some (Inr FAILED, snd (onRun s ''Testing failure on init'' t_a)) \<and>
         goal_outcome (snd (onRun s ''Testing failure on init'' t_a))
             ''Testing failure on run'' t_b clock_b (Some h_b) spin_b =
           Some (Inr FAILED,
                 \<lparr>initialized = True, command = ''Testing failure on run'', start_time = t_b\<rparr>) \<and>
         goal_outcome (snd (onRun s ''Testing failure on init'' t_a))
             ''Testing failure on run'' t_b clock_b (Some h_b) spin_b =
           goal_outcome fresh_recovery ''Testing failure on run'' t_b clock_b (Some h_b) spin_b \<and>
         (\<forall>prior c t. onRun prior c t = onRun fresh_recovery c t) \<and>
         (\<forall>prior c t. snd (onRun prior c t) =
            \<lparr>initialized = (c = ''Testing success'' \<or> c = ''Testing failure on run''),
             command = c, start_time = t\<rparr>)"
proof -
  have a: "\<forall>prior c t. onRun prior c t = onRun fresh_recovery c t"
    using onRun_overwrites by blast
  have b: "\<forall>prior c t. snd (onRun prior c t) =
            \<lparr>initialized = (c = ''Testing success'' \<or> c = ''Testing failure on run''),
             command = c, start_time = t\<rparr>"
  proof (intro allI)
    fix prior :: DummyRecovery and c t
    show "snd (onRun prior c t) =
            \<lparr>initialized = (c = ''Testing success'' \<or> c = ''Testing failure on run''),
             command = c, start_time = t\<rparr>"
      by (cases prior) (simp add: onRun_def Let_def)
  qed
  have c: "\<And>s0. goal_outcome s0 ''Testing failure on run'' t_b clock_b (Some h_b) spin_b =
           Some (Inr FAILED,
                 \<lparr>initialized = True, command = ''Testing failure on run'', start_time = t_b\<rparr>)"
    using assms(2) getOutcome_of_status [where spin = spin_b and m = m_b and h = h_b and st = FAILED]
    by (simp add: goal_outcome_def execute_failure_on_run)
  have d: "goal_outcome s ''Testing failure on init'' t_a clock_a (Some h_a) spin_a =
           Some (Inr FAILED, snd (onRun s ''Testing failure on init'' t_a))"
    using assms(1) getOutcome_of_status [where spin = spin_a and m = m_a and h = h_a and st = FAILED]
    by (simp add: goal_outcome_def execute_failure_on_init onRun_failure_on_init)
  show ?thesis using a b c d by (simp add: onRun_failure_on_init)
qed

text \<open>
  C8 on a recovery that has completed a successful goal before.
\<close>

theorem sequential_failures_witness:
  "complete_at_third 2 = SUCCESS \<and>
   goal_outcome used_recovery ''Testing failure on init'' 100000000000 second_clock (Some 0)
       complete_at_third =
     Some (Inr FAILED,
           \<lparr>initialized = False, command = ''Testing failure on init'',
            start_time = 100000000000\<rparr>) \<and>
   goal_outcome
       \<lparr>initialized = False, command = ''Testing failure on init'', start_time = 100000000000\<rparr>
       ''Testing failure on run'' 200000000000 second_clock (Some 1) complete_at_third =
     Some (Inr FAILED,
           \<lparr>initialized = True, command = ''Testing failure on run'',
            start_time = 200000000000\<rparr>)"
proof -
  have c: "complete_at_third 2 = SUCCESS" by (simp add: complete_at_third_def)
  show ?thesis
    using sequential_failures [where spin_a = complete_at_third and m_a = 2
        and spin_b = complete_at_third and m_b = 2 and s = used_recovery
        and t_a = 100000000000 and clock_a = second_clock and h_a = 0
        and t_b = 200000000000 and clock_b = second_clock and h_b = 1] c
    by (simp add: onRun_failure_on_init)
qed

section \<open>Properties of the planner tester\<close>

lemma isCollisionFree_all:
  "isCollisionFree ub is_free poses =
     (\<forall>pose\<in>set poses.
        is_free (static_cast_uint ub (std_round (position_x pose)))
                (static_cast_uint ub (std_round (position_y pose))))"
  by (induction poses) (simp_all add: Let_def)

lemma isCollisionFree_stops:
  assumes "\<not> is_free (static_cast_uint ub (std_round (position_x pose)))
                     (static_cast_uint ub (std_round (position_y pose)))"
  shows "isCollisionFree ub is_free (before @ pose # rest) = False"
  using assms by (simp add: isCollisionFree_all)

lemma trunc_of_int: "trunc (of_int z) = z"
  by (simp add: trunc_def)

lemma cell_in_range:
  assumes "0 \<le> cpp_round r" and "cpp_round r < 2 ^ 32"
  shows "static_cast_uint ub (std_round (Finite r)) = word_of_int (cpp_round r)"
  using assms by (simp add: static_cast_uint_def trunc_of_int)

lemma cpp_round_nearest: "\<bar>r - of_int (cpp_round r)\<bar> \<le> 1 / 2"
proof (cases "0 \<le> r")
  case True
  have a: "of_int \<lfloor>r + 1 / 2\<rfloor> \<le> r + 1 / 2" and b: "r + 1 / 2 < of_int \<lfloor>r + 1 / 2\<rfloor> + 1"
    by linarith+
  have c: "cpp_round r = \<lfloor>r + 1 / 2\<rfloor>" using True by (simp add: cpp_round_def)
  show ?thesis unfolding c using a b by linarith
next
  case False
  have a: "of_int \<lfloor>- r + 1 / 2\<rfloor> \<le> - r + 1 / 2"
    and b: "- r + 1 / 2 < of_int \<lfloor>- r + 1 / 2\<rfloor> + 1"
    by linarith+
  have c: "of_int (cpp_round r) = - (of_int \<lfloor>- r + 1 / 2\<rfloor> :: real)"
    using False by (simp add: cpp_round_def)
  show ?thesis unfolding c using a b by linarith
qed

text \<open>
  C2: \<open>isCollisionFree\<close> returns true if and only if, for every pose of the path, the
  costmap cell at the rounded coordinates is free; a path without poses is collision-free;
  and a pose whose cell is not free makes the result false whatever follows it. The cell of a
  finite coordinate whose rounded value is an \<open>unsigned int\<close> is that rounded value.
\<close>

theorem isCollisionFree_iff_all_free:
  "isCollisionFree ub is_free poses =
     (\<forall>pose\<in>set poses.
        is_free (static_cast_uint ub (std_round (position_x pose)))
                (static_cast_uint ub (std_round (position_y pose)))) \<and>
   isCollisionFree ub is_free [] = True \<and>
   (\<not> is_free (static_cast_uint ub (std_round (position_x pose)))
              (static_cast_uint ub (std_round (position_y pose)))
      \<longrightarrow> isCollisionFree ub is_free (before @ pose # rest) = False) \<and>
   (0 \<le> cpp_round r \<and> cpp_round r < 2 ^ 32
      \<longrightarrow> static_cast_uint ub (std_round (Finite r)) = word_of_int (cpp_round r))"
  using isCollisionFree_all [of ub is_free poses]
    isCollisionFree_stops [of is_free ub pose before rest] cell_in_range [of r ub]
  by simp

text \<open>
  C2 on a costmap whose column 3 is blocked: a path through (2.6, 1), which rounds into
  column 3, is rejected, and a path that stays in free cells is accepted.
\<close>

theorem isCollisionFree_iff_all_free_witness:
  "isCollisionFree to_zero column_blocked [point 1 1, in_column_3, point 5 5] = False \<and>
   isCollisionFree to_zero column_blocked [point 1 1, point 2 2] = True \<and>
   cpp_round (13 / 5) = 3 \<and>
   static_cast_uint to_zero (std_round (Finite (13 / 5))) = 3"
proof -
  have a: "cpp_round (13 / 5) = 3" by (simp add: cpp_round_def)
  have b: "\<not> column_blocked (static_cast_uint to_zero (std_round (position_x in_column_3)))
                              (static_cast_uint to_zero (std_round (position_y in_column_3)))"
    using cell_in_range [of "13 / 5" to_zero] a by (simp add: column_blocked_def in_column_3_def)
  have c: "\<forall>pose\<in>set [point 1 1, point 2 2].
        column_blocked (static_cast_uint to_zero (std_round (position_x pose)))
                (static_cast_uint to_zero (std_round (position_y pose)))"
    by (simp add: point_def column_blocked_def static_cast_uint_def cpp_round_def trunc_def)
  show ?thesis
    using isCollisionFree_iff_all_free [of to_zero column_blocked "[point 1 1, point 2 2]"
        in_column_3 "[point 1 1]" "[point 5 5]" "13 / 5"]
      isCollisionFree_iff_all_free [of to_zero column_blocked "[point 1 1, in_column_3, point 5 5]"
        in_column_3 "[point 1 1]" "[point 5 5]" "13 / 5"]
      a b c
    by simp
qed





text \<open>
  Counterexample to C3 as stated: a path that starts half a cell from the robot is rejected
  with the tolerance 1 as it is with the tolerance 0, and with a reference path as without.
\<close>

theorem isWithinTolerance_tolerance_counterexample:
  "isWithinTolerance5 (point 1 1) (point 8 8) [near_start, point 8 8] (Finite 1) [] = Inr False \<and>
   isWithinTolerance5 (point 1 1) (point 8 8) [near_start, point 8 8] (Finite 0) [] = Inr False \<and>
   isWithinTolerance5 (point 1 1) (point 8 8) [near_start, point 8 8] (Finite 1)
     [point 1 1, point 8 8] = Inr False"
  by (simp add: isWithinTolerance5_def point_def near_start_def)

text \<open>
  C3, amended: the endpoint validation takes no tolerance into account. For a path with at
  least one pose, the overload of \<open>isWithinTolerance\<close> with five parameters returns true
  exactly when the first pose equals the robot's start position and the last pose equals the
  goal position under exact floating-point equality; the result is the same for every
  tolerance and every reference path, and the overload with three parameters returns it too.
\<close>

theorem isWithinTolerance_exact_endpoints:
  "isWithinTolerance5 robot_position goal poses deviationTolerance reference_path =
     (if poses = [] then Inl OutOfBounds
      else Inr (floating_eq (position_x (hd poses)) (position_x robot_position) \<and>
                floating_eq (position_y (hd poses)) (position_y robot_position) \<and>
                floating_eq (position_x (last poses)) (position_x goal) \<and>
                floating_eq (position_y (last poses)) (position_y goal))) \<and>
   isWithinTolerance5 robot_position goal poses deviationTolerance reference_path =
     isWithinTolerance5 robot_position goal poses tolerance' reference_path' \<and>
   isWithinTolerance robot_position goal poses =
     isWithinTolerance5 robot_position goal poses deviationTolerance reference_path"
  by (cases poses)
     (auto simp add: isWithinTolerance5_def isWithinTolerance_def last_conv_nth Let_def)

text \<open>
  The amended C3 on a path from (1, 1) to (8, 8).
\<close>

theorem isWithinTolerance_exact_endpoints_witness:
  "isWithinTolerance5 (point 1 1) (point 8 8) [point 1 1, point 4 5, point 8 8] (Finite 1) [] =
     Inr True \<and>
   isWithinTolerance5 (point 1 1) (point 8 8) [point 1 1, point 4 5, point 8 8] (Finite 0)
     [point 1 1] = Inr True \<and>
   isWithinTolerance (point 1 1) (point 8 8) [point 1 1, point 4 5, point 8 8] = Inr True"
proof -
  let ?poses = "[point 1 1, point 4 5, point 8 8]"
  note t = isWithinTolerance_exact_endpoints [of "point 1 1" "point 8 8" ?poses]
  have a: "isWithinTolerance5 (point 1 1) (point 8 8) ?poses (Finite 1) [] = Inr True"
    using t [of "Finite 1" "[]", THEN conjunct1] by (simp add: point_def)
  have b: "isWithinTolerance5 (point 1 1) (point 8 8) ?poses (Finite 0) [point 1 1] = Inr True"
    using t [of "Finite 0" "[point 1 1]", THEN conjunct1] by (simp add: point_def)
  have c: "isWithinTolerance (point 1 1) (point 8 8) ?poses =
             isWithinTolerance5 (point 1 1) (point 8 8) ?poses (Finite 1) []"
    using t [of "Finite 1" "[]", THEN conjunct2, THEN conjunct2] .
  show ?thesis by (simp only: a b c simp_thms)
qed

text \<open>
  C9: \<open>isWithinTolerance\<close> reads the first and the last pose without a check, so for
  a path without poses, and only for such a path, the reads are out of bounds; its caller
  \<open>plannerTest\<close> does not exclude that path: when the planner reports success with a path
  of no points, \<open>isCollisionFree\<close> accepts it and \<open>isWithinTolerance\<close> is called
  on it.
\<close>

theorem isWithinTolerance_empty_path:
  "isWithinTolerance5 robot_position goal [] deviationTolerance reference_path = Inl OutOfBounds \<and>
   isWithinTolerance robot_position goal [] = Inl OutOfBounds \<and>
   (isWithinTolerance5 robot_position goal poses deviationTolerance reference_path =
      Inl OutOfBounds) = (poses = []) \<and>
   (goal_ready reply \<and> goal_handle reply \<noteq> None \<and> result_ready reply \<and>
    result_code reply = ResultSUCCEEDED \<and> result_path reply = []
      \<longrightarrow> sendRequest reply path = (TaskSUCCEEDED, []) \<and>
          plannerTest ub is_free reply robot_position goal path = (Inl OutOfBounds, []))"
  by (cases poses)
     (auto simp add: isWithinTolerance5_def isWithinTolerance_def plannerTest_def sendRequest_def
        Let_def)

text \<open>
  C9 on a planner that succeeds with an empty path.
\<close>

theorem isWithinTolerance_empty_path_witness:
  "sendRequest (path_reply []) [point 1 1] = (TaskSUCCEEDED, []) \<and>
   plannerTest to_zero open_space (path_reply []) (point 1 1) (point 8 8) [point 1 1] =
     (Inl OutOfBounds, []) \<and>
   isWithinTolerance (point 1 1) (point 8 8) [] = Inl OutOfBounds"
  using isWithinTolerance_empty_path [of "point 1 1" "point 8 8" "Finite 0" "[]" "[]"
      "path_reply []" "[point 1 1]" to_zero open_space]
  by (simp add: path_reply_def)

lemma generate_random_free:
  "is_free (word_of_int (fst (rng i))) (word_of_int (snd (rng i)))
     \<Longrightarrow> generate_random is_free rng i = Some (rng i, Suc i)"
  by (subst generate_random.simps) simp

lemma generate_random_open_space:
  "generate_random open_space rng i = Some (rng i, Suc i)"
  by (rule generate_random_free) (simp add: open_space_def)

lemma plannerTest_failed_reply:
  "plannerTest ub is_free failed_reply robot_position goal path = (Inr False, path)"
  by (simp add: plannerTest_def sendRequest_def failed_reply_def)

lemma plannerTest_straight_path:
  "plannerTest ub open_space (path_reply [point a b, point c d]) (point a b) (point c d) path =
     (Inr True, [point a b, point c d])"
  by (simp add: plannerTest_def sendRequest_def path_reply_def open_space_def Let_def
      isWithinTolerance_def isWithinTolerance5_def point_def)

lemma trial_even:
  "even test_num \<Longrightarrow>
   random_trials ub open_space diagonal every_other_fails (Suc remaining) test_num i path num_fail =
   random_trials ub open_space diagonal every_other_fails remaining (Suc test_num) (Suc (Suc i)) path
     (num_fail + 1)"
  by (simp add: generate_random_open_space every_other_fails_def plannerTest_failed_reply)

lemma trial_odd:
  assumes "odd test_num" and "i = 2 * test_num"
  shows "random_trials ub open_space diagonal every_other_fails (Suc remaining) test_num i
           path num_fail =
         random_trials ub open_space diagonal every_other_fails remaining (Suc test_num)
           (Suc (Suc i))
           [point (2 * int test_num + 1) (2 * int test_num + 1),
            point (2 * int test_num + 2) (2 * int test_num + 2)] num_fail"
proof -
  have "plannerTest ub open_space
          (path_reply [point (2 * int test_num + 1) (2 * int test_num + 1),
                       point (2 * int test_num + 2) (2 * int test_num + 2)])
          (point (2 * int test_num + 1) (2 * int test_num + 1))
          (point (2 * int test_num + 2) (2 * int test_num + 2)) path =
        (Inr True, [point (2 * int test_num + 1) (2 * int test_num + 1),
                    point (2 * int test_num + 2) (2 * int test_num + 2)])"
    by (rule plannerTest_straight_path)
  then show ?thesis
    using assms
    by (simp add: generate_random_open_space every_other_fails_def diagonal_def point_def
        algebra_simps)
qed

lemma four_trials:
  "random_trials to_zero open_space diagonal every_other_fails 4 0 0 [] 0 = Some (Inr 2)"
proof -
  have n: "(4::nat) = Suc (Suc (Suc (Suc 0)))" by simp
  show ?thesis
    unfolding n
    by (simp add: trial_even trial_odd del: random_trials.simps(2))
qed

lemma quotient_below_one:
  fixes num_fail number_tests :: "32 word"
  shows "num_fail < number_tests \<Longrightarrow> num_fail div number_tests = 0"
  by (simp add: word_less_nat_alt unat_eq_zero [symmetric] unat_div)

lemma integer_quotient_passes:
  assumes "random_trials ub is_free rng replies (unat number_tests) 0 0 [] 0 = Some (Inr num_fail)"
    and "num_fail < number_tests" and "0 \<le> a"
  shows "defaultPlannerRandomTests True False True ub is_free rng replies number_tests (Finite a)
           = Some (Inr True)"
proof -
  have "number_tests \<noteq> 0" using assms(2) by auto
  moreover have "num_fail div number_tests = 0" using assms(2) by (rule quotient_below_one)
  ultimately show ?thesis
    using assms(1,3) by (simp add: defaultPlannerRandomTests_def uint_to_float_def)
qed

text \<open>
  C1 fails on the code: of four trials two fail, so the failure fraction is 2 / 4, above the
  acceptable ratio 1 / 4; the quotient of the two \<open>unsigned int\<close> counters is 0, and
  \<open>defaultPlannerRandomTests\<close> returns true.
\<close>

theorem random_tests_integer_quotient:
  "random_trials to_zero open_space diagonal every_other_fails 4 0 0 [] 0 = Some (Inr 2) \<and>
   defaultPlannerRandomTests True False True to_zero open_space diagonal every_other_fails 4
     (Finite (1 / 4)) = Some (Inr True) \<and>
   floating_gt (Finite (2 / 4)) (Finite (1 / 4)) \<and>
   uint_to_float ((2 :: 32 word) div 4) = Finite 0"
  using four_trials by (simp add: defaultPlannerRandomTests_def uint_to_float_def)

end
